theory Spec2Isabelle
  imports Main "HOL-Library.Sublist"
begin

section \<open>Values exchanged with the model\<close>

text \<open>
  The generator of \<^verbatim>\<open>question_generator.py\<close> reads the text a language model returns,
  decodes it with \<^verbatim>\<open>json.loads\<close> and builds Python dictionaries from it. A decoded value is
  one of Python's \<^verbatim>\<open>None\<close>, \<^verbatim>\<open>bool\<close>, \<^verbatim>\<open>int\<close>, \<^verbatim>\<open>float\<close>, \<^verbatim>\<open>str\<close>, \<^verbatim>\<open>list\<close> and \<^verbatim>\<open>dict\<close>.
  A float is kept as mantissa and binary exponent, or as one of the three special values
  that \<^verbatim>\<open>json.loads\<close> accepts; only its being zero or not is ever looked at.
  Text is a list of code points in the range of \<^typ>\<open>char\<close>.
  A dictionary is an association list in insertion order, read with \<^const>\<open>map_of\<close>;
  the dictionaries the program builds itself have pairwise distinct keys.
\<close>

datatype pyfloat = Finite int int | Infinite bool | NaN

datatype json =
    JNull
  | JBool bool
  | JInt int
  | JFloat pyfloat
  | JStr string
  | JArr "json list"
  | JObj "(string \<times> json) list"

type_synonym dict = "(string \<times> json) list"

text \<open>Python's truth value of an object, as \<^verbatim>\<open>if x\<close> and \<^verbatim>\<open>and\<close> test it.\<close>

fun truthy :: "json \<Rightarrow> bool" where
  "truthy JNull = False"
| "truthy (JBool b) = b"
| "truthy (JInt n) = (n \<noteq> 0)"
| "truthy (JFloat x) = (case x of Finite m e \<Rightarrow> m \<noteq> 0 | Infinite s \<Rightarrow> True | NaN \<Rightarrow> True)"
| "truthy (JStr s) = (s \<noteq> [])"
| "truthy (JArr xs) = (xs \<noteq> [])"
| "truthy (JObj kvs) = (kvs \<noteq> [])"

text \<open>\<^verbatim>\<open>d.get(k, default)\<close>.\<close>

definition dict_get :: "dict \<Rightarrow> string \<Rightarrow> json \<Rightarrow> json" where
  "dict_get d k dflt = (case map_of d k of Some v \<Rightarrow> v | None \<Rightarrow> dflt)"

text \<open>
  The exceptions of the functions modelled here. \<^verbatim>\<open>json.loads\<close> raises
  \<^verbatim>\<open>json.JSONDecodeError\<close> on text that is not JSON, a plain \<^verbatim>\<open>ValueError\<close> on an integer
  literal with more digits than the interpreter converts, and \<^verbatim>\<open>RecursionError\<close> on
  brackets nested too deep. The \<^verbatim>\<open>ValueError\<close> that \<^verbatim>\<open>_parse_coding\<close> raises itself is caught
  where it arises and is a branch of the model.
\<close>

datatype error =
    AttributeError
  | TypeError
  | OllamaReturned int
  | Timeout
  | RequestFailed
  | BodyNotJson
  | JSONDecodeError
  | ValueError
  | RecursionError

subsection \<open>Text primitives\<close>

text \<open>
  The code points below 256 for which \<^verbatim>\<open>str.isspace\<close> holds; \<^verbatim>\<open>\s\<close> in a \<^verbatim>\<open>str\<close> pattern and
  \<^verbatim>\<open>str.strip()\<close> both use this class.
\<close>

definition is_space :: "char \<Rightarrow> bool" where
  "is_space c = (of_char c \<in> {9, 10, 11, 12, 13, 28, 29, 30, 31, 32, 133, 160 :: nat})"

definition py_strip :: "string \<Rightarrow> string" where
  "py_strip s = rev (dropWhile is_space (rev (dropWhile is_space s)))"

text \<open>\<^verbatim>\<open>str(n)\<close> for an integer, as an f-string field formats it.\<close>

definition digit_char :: "nat \<Rightarrow> char" where
  "digit_char d = ''0123456789'' ! d"

function str_nat :: "nat \<Rightarrow> string" where
  "str_nat n = (if n < 10 then [digit_char n] else str_nat (n div 10) @ [digit_char (n mod 10)])"
  by pat_completeness auto
termination
  by (relation "measure (\<lambda>n. n)") auto

declare str_nat.simps [simp del]

definition str_int :: "int \<Rightarrow> string" where
  "str_int i = (if i < 0 then CHR ''-'' # str_nat (nat (- i)) else str_nat (nat i))"

section \<open>Stage A: \<^verbatim>\<open>_extract_json\<close>\<close>

text \<open>
  \<^verbatim>\<open>re.sub(r'```json\s*', '', s)\<close> and \<^verbatim>\<open>re.sub(r'```\s*', '', s)\<close>: scanning from the left, every
  occurrence of three backticks and the tag, with the whitespace after it, is deleted, and
  the scan goes on behind the deleted match.
\<close>

function remove_fence :: "string \<Rightarrow> string \<Rightarrow> string" where
  "remove_fence tag [] = []"
| "remove_fence tag (c # cs) =
     (if prefix (''```'' @ tag) (c # cs)
      then remove_fence tag (dropWhile is_space (drop (3 + length tag) (c # cs)))
      else c # remove_fence tag cs)"
  by pat_completeness auto
termination
  by (relation "measure (\<lambda>(tag, s). length s)")
     (auto simp: le_imp_less_Suc order.trans [OF length_dropWhile_le])

text \<open>The part of \<open>cs\<close> up to and including the last occurrence of \<open>c\<close>.\<close>

definition upto_last :: "char \<Rightarrow> string \<Rightarrow> string" where
  "upto_last c cs = rev (dropWhile (\<lambda>x. x \<noteq> c) (rev cs))"

text \<open>
  \<^verbatim>\<open>re.search(r'(\[.*\]|\{.*\})', s, re.DOTALL)\<close>: the start positions are tried from the
  left; at each one the first alternative is tried before the second, and \<^verbatim>\<open>.*\<close> is greedy
  and crosses newlines, so a match runs to the last closing bracket of its kind.
\<close>

fun search_span :: "string \<Rightarrow> string option" where
  "search_span [] = None"
| "search_span (c # cs) =
     (if c = CHR ''['' \<and> CHR '']'' \<in> set cs then Some (c # upto_last CHR '']'' cs)
      else if c = CHR ''{'' \<and> CHR ''}'' \<in> set cs then Some (c # upto_last CHR ''}'' cs)
      else search_span cs)"

definition extract_json :: "string \<Rightarrow> string" where
  "extract_json raw_output =
     (let raw_output = remove_fence ''json'' raw_output;
          raw_output = remove_fence [] raw_output
      in case search_span raw_output of
           Some json_match \<Rightarrow> json_match
         | None \<Rightarrow> py_strip raw_output)"

section \<open>Stage D: the fallback generators\<close>

definition generate_fallback_mcq :: "string \<Rightarrow> string \<Rightarrow> int \<Rightarrow> dict list" where
  "generate_fallback_mcq topic difficulty count =
     map (\<lambda>i.
       [(''id'', JInt (i + 1)),
        (''topic'', JStr topic),
        (''difficulty'', JStr difficulty),
        (''type'', JStr ''mcq''),
        (''question'', JStr (''What is an important concept in '' @ topic
                              @ ''? (Question '' @ str_int (i + 1) @ '')'')),
        (''options'', JObj [(''A'', JStr ''Option A''), (''B'', JStr ''Option B''),
                            (''C'', JStr ''Option C''), (''D'', JStr ''Option D'')]),
        (''correct_answer'', JStr ''A''),
        (''explanation'',
           JStr ''This is a fallback question. Please regenerate for better quality.'')])
       [0..count - 1]"

definition generate_fallback_fillup :: "string \<Rightarrow> string \<Rightarrow> int \<Rightarrow> dict list" where
  "generate_fallback_fillup topic difficulty count =
     map (\<lambda>i.
       [(''id'', JInt (i + 1)),
        (''topic'', JStr topic),
        (''difficulty'', JStr difficulty),
        (''type'', JStr ''fillup''),
        (''question'', JStr (''In '' @ topic @ '', ___ is an important concept (Question ''
                              @ str_int (i + 1) @ '')'')),
        (''correct_word'', JStr ''placeholder''),
        (''hint'', JStr ''Key concept''),
        (''explanation'',
           JStr ''This is a fallback question. Please regenerate for better quality.'')])
       [0..count - 1]"

definition time_limits :: dict where
  "time_limits = [(''easy'', JInt 120), (''medium'', JInt 180), (''hard'', JInt 300)]"

definition generate_fallback_coding :: "string \<Rightarrow> string \<Rightarrow> int \<Rightarrow> dict list" where
  "generate_fallback_coding topic difficulty count =
     map (\<lambda>i.
       [(''id'', JInt (i + 1)),
        (''topic'', JStr topic),
        (''difficulty'', JStr difficulty),
        (''type'', JStr ''coding''),
        (''question'', JStr (''Write a function for '' @ topic
                              @ '' (Question '' @ str_int (i + 1) @ '')'')),
        (''function_name'', JStr (''solve_'' @ str_int (i + 1))),
        (''test_input'', JStr ''input''),
        (''expected_output'', JStr ''output''),
        (''time_limit_seconds'', dict_get time_limits difficulty (JInt 120))])
       [0..count - 1]"

section \<open>Stages B and C: the parsers\<close>

text \<open>
  \<^verbatim>\<open>json.loads\<close> belongs to Python's library, so it is a parameter \<open>loads\<close> of the parsers,
  which returns the decoded value or the exception it raises. \<^verbatim>\<open>_parse_mcq\<close> and
  \<^verbatim>\<open>_parse_fillup\<close> catch \<^verbatim>\<open>json.JSONDecodeError\<close> only, and every other exception of
  \<^verbatim>\<open>json.loads\<close> leaves them; \<^verbatim>\<open>_parse_coding\<close> catches \<^verbatim>\<open>ValueError\<close> too, of which
  \<^verbatim>\<open>json.JSONDecodeError\<close> is a subclass.
\<close>

subsection \<open>Multiple choice\<close>

text \<open>The dictionary built for one element, and the check that decides whether it is kept.\<close>

definition mcq_validate :: "string \<Rightarrow> string \<Rightarrow> int \<Rightarrow> dict \<Rightarrow> dict option" where
  "mcq_validate topic difficulty i q =
     (let validated =
            [(''id'', dict_get q ''id'' (JInt i)),
             (''topic'', dict_get q ''topic'' (JStr topic)),
             (''difficulty'', dict_get q ''difficulty'' (JStr difficulty)),
             (''type'', JStr ''mcq''),
             (''question'', dict_get q ''question'' (JStr [])),
             (''options'', dict_get q ''options'' (JObj [])),
             (''correct_answer'', dict_get q ''correct_answer'' (JStr ''A'')),
             (''explanation'', dict_get q ''explanation'' (JStr []))]
      in if truthy (dict_get validated ''question'' JNull)
            \<and> truthy (dict_get validated ''options'' JNull)
         then Some validated else None)"

text \<open>
  The loop \<^verbatim>\<open>for i, q in enumerate(parsed, 1)\<close>, with \<^verbatim>\<open>valid_questions\<close> as accumulator.
\<close>

fun mcq_loop :: "string \<Rightarrow> string \<Rightarrow> int \<Rightarrow> json list \<Rightarrow> dict list \<Rightarrow> dict list" where
  "mcq_loop topic difficulty i [] valid_questions = valid_questions"
| "mcq_loop topic difficulty i (q # qs) valid_questions =
     mcq_loop topic difficulty (i + 1) qs
       (case q of
          JObj d \<Rightarrow>
            (case mcq_validate topic difficulty i d of
               Some validated \<Rightarrow> valid_questions @ [validated]
             | None \<Rightarrow> valid_questions)
        | _ \<Rightarrow> valid_questions)"

definition parse_mcq ::
  "(string \<Rightarrow> error + json) \<Rightarrow> string \<Rightarrow> string \<Rightarrow> string \<Rightarrow> int
     \<Rightarrow> error + dict list" where
  "parse_mcq loads raw_output topic difficulty count =
     (let cleaned = extract_json raw_output
      in case loads cleaned of
           Inl e \<Rightarrow>
             if e = JSONDecodeError then Inr (generate_fallback_mcq topic difficulty count)
             else Inl e
         | Inr parsed \<Rightarrow>
             (case parsed of
                JArr elems \<Rightarrow>
                  (let valid_questions = mcq_loop topic difficulty 1 elems []
                   in if valid_questions \<noteq> [] then Inr valid_questions
                      else Inr (generate_fallback_mcq topic difficulty count))
              | JObj d \<Rightarrow>
                  (case mcq_validate topic difficulty 1 d of
                     Some validated \<Rightarrow> Inr [validated]
                   | None \<Rightarrow> Inr (generate_fallback_mcq topic difficulty count))
              | _ \<Rightarrow> Inr (generate_fallback_mcq topic difficulty count)))"

subsection \<open>Fill in the blank\<close>

definition fillup_validate :: "string \<Rightarrow> string \<Rightarrow> int \<Rightarrow> dict \<Rightarrow> dict option" where
  "fillup_validate topic difficulty i q =
     (let validated =
            [(''id'', dict_get q ''id'' (JInt i)),
             (''topic'', dict_get q ''topic'' (JStr topic)),
             (''difficulty'', dict_get q ''difficulty'' (JStr difficulty)),
             (''type'', JStr ''fillup''),
             (''question'', dict_get q ''question'' (JStr [])),
             (''correct_word'', dict_get q ''correct_word'' (JStr [])),
             (''hint'', dict_get q ''hint'' (JStr [])),
             (''explanation'', dict_get q ''explanation'' (JStr []))]
      in if truthy (dict_get validated ''question'' JNull)
            \<and> truthy (dict_get validated ''correct_word'' JNull)
         then Some validated else None)"

fun fillup_loop :: "string \<Rightarrow> string \<Rightarrow> int \<Rightarrow> json list \<Rightarrow> dict list \<Rightarrow> dict list" where
  "fillup_loop topic difficulty i [] valid_questions = valid_questions"
| "fillup_loop topic difficulty i (q # qs) valid_questions =
     fillup_loop topic difficulty (i + 1) qs
       (case q of
          JObj d \<Rightarrow>
            (case fillup_validate topic difficulty i d of
               Some validated \<Rightarrow> valid_questions @ [validated]
             | None \<Rightarrow> valid_questions)
        | _ \<Rightarrow> valid_questions)"

definition parse_fillup ::
  "(string \<Rightarrow> error + json) \<Rightarrow> string \<Rightarrow> string \<Rightarrow> string \<Rightarrow> int
     \<Rightarrow> error + dict list" where
  "parse_fillup loads raw_output topic difficulty count =
     (let cleaned = extract_json raw_output
      in case loads cleaned of
           Inl e \<Rightarrow>
             if e = JSONDecodeError then Inr (generate_fallback_fillup topic difficulty count)
             else Inl e
         | Inr parsed \<Rightarrow>
             (case parsed of
                JArr elems \<Rightarrow>
                  (let valid_questions = fillup_loop topic difficulty 1 elems []
                   in if valid_questions \<noteq> [] then Inr valid_questions
                      else Inr (generate_fallback_fillup topic difficulty count))
              | JObj d \<Rightarrow>
                  (case fillup_validate topic difficulty 1 d of
                     Some validated \<Rightarrow> Inr [validated]
                   | None \<Rightarrow> Inr (generate_fallback_fillup topic difficulty count))
              | _ \<Rightarrow> Inr (generate_fallback_fillup topic difficulty count)))"

subsection \<open>Coding\<close>

text \<open>
  \<^verbatim>\<open>q.get(k, "").strip()\<close>: only a \<^verbatim>\<open>str\<close> has the method; on any other decoded value the
  attribute lookup raises \<^verbatim>\<open>AttributeError\<close>.
\<close>

definition get_strip :: "dict \<Rightarrow> string \<Rightarrow> error + string" where
  "get_strip q k =
     (case dict_get q k (JStr []) of
        JStr s \<Rightarrow> Inr (py_strip s)
      | _ \<Rightarrow> Inl AttributeError)"

text \<open>
  The dictionary display evaluates its entries from top to bottom, so the first field that
  is not a string decides the exception. A result \<open>Inr None\<close> is an element not kept.
\<close>

definition coding_validate :: "string \<Rightarrow> string \<Rightarrow> int \<Rightarrow> dict \<Rightarrow> error + dict option" where
  "coding_validate topic difficulty i q =
     (case get_strip q ''question'' of Inl e \<Rightarrow> Inl e | Inr question \<Rightarrow>
      case get_strip q ''input'' of Inl e \<Rightarrow> Inl e | Inr input \<Rightarrow>
      case get_strip q ''output'' of Inl e \<Rightarrow> Inl e | Inr output \<Rightarrow>
      case get_strip q ''constraints'' of Inl e \<Rightarrow> Inl e | Inr constraints \<Rightarrow>
      case get_strip q ''expected_output_example'' of Inl e \<Rightarrow> Inl e | Inr example \<Rightarrow>
        (let validated =
               [(''id'', dict_get q ''id'' (JInt i)),
                (''topic'', dict_get q ''topic'' (JStr topic)),
                (''difficulty'', dict_get q ''difficulty'' (JStr difficulty)),
                (''type'', JStr ''coding''),
                (''question'', JStr question),
                (''input'', JStr input),
                (''output'', JStr output),
                (''constraints'', JStr constraints),
                (''expected_output_example'', JStr example),
                (''time_limit_seconds'', dict_get q ''time_limit_seconds'' (JInt 120))]
         in Inr (if truthy (dict_get validated ''question'' JNull)
                    \<and> truthy (dict_get validated ''input'' JNull)
                    \<and> truthy (dict_get validated ''output'' JNull)
                 then Some validated else None)))"

fun coding_loop ::
  "string \<Rightarrow> string \<Rightarrow> int \<Rightarrow> json list \<Rightarrow> dict list \<Rightarrow> error + dict list" where
  "coding_loop topic difficulty i [] valid_questions = Inr valid_questions"
| "coding_loop topic difficulty i (q # qs) valid_questions =
     (case q of
        JObj d \<Rightarrow>
          (case coding_validate topic difficulty i d of
             Inl e \<Rightarrow> Inl e
           | Inr (Some validated) \<Rightarrow>
               coding_loop topic difficulty (i + 1) qs (valid_questions @ [validated])
           | Inr None \<Rightarrow> coding_loop topic difficulty (i + 1) qs valid_questions)
      | _ \<Rightarrow> coding_loop topic difficulty (i + 1) qs valid_questions)"

text \<open>The slice \<^verbatim>\<open>xs[:n]\<close>; a negative bound counts from the end.\<close>

definition slice_to :: "int \<Rightarrow> 'a list \<Rightarrow> 'a list" where
  "slice_to n xs = (if 0 \<le> n then take (nat n) xs else take (length xs - nat (- n)) xs)"

definition parse_coding ::
  "(string \<Rightarrow> error + json) \<Rightarrow> string \<Rightarrow> string \<Rightarrow> string \<Rightarrow> int
     \<Rightarrow> error + dict list" where
  "parse_coding loads raw_output topic difficulty count =
     (let cleaned = extract_json raw_output
      in case loads cleaned of
           Inl e \<Rightarrow>
             if e = JSONDecodeError \<or> e = ValueError
             then Inr (generate_fallback_coding topic difficulty count)
             else Inl e
         | Inr parsed \<Rightarrow>
             (let parsed = (case parsed of JObj d \<Rightarrow> JArr [parsed] | _ \<Rightarrow> parsed)
              in case parsed of
                   JArr elems \<Rightarrow>
                     (case coding_loop topic difficulty 1 elems [] of
                        Inl e \<Rightarrow> Inl e
                      | Inr valid_questions \<Rightarrow>
                          if valid_questions \<noteq> [] then Inr (slice_to count valid_questions)
                          else Inr (generate_fallback_coding topic difficulty count))
                 | _ \<Rightarrow> Inr (generate_fallback_coding topic difficulty count)))"

section \<open>The generation entry points\<close>






section \<open>Notions of the specification\<close>

text \<open>
  Stage A as the specification words it: after the fences are removed, the first top-level
  \<^verbatim>\<open>[...]\<close> span is returned, and only when there is none the first top-level \<^verbatim>\<open>{...}\<close> span.
  An opening bracket is top-level when it stands outside every string literal and outside
  every pair of brackets, of either kind, opened before it; its span runs to the last
  closing bracket of its kind. Without a span the trimmed text is returned.

  The scan keeps the number of brackets open and whether it is in plain text, inside a
  string literal (between two double quotes, code point 34), or behind a backslash (code
  point 92) inside one.
\<close>

datatype position = Plain | Quoted | Escaped

fun first_span :: "char \<Rightarrow> char \<Rightarrow> nat \<Rightarrow> position \<Rightarrow> string \<Rightarrow> string option" where
  "first_span opn cls depth pos [] = None"
| "first_span opn cls depth Escaped (c # cs) = first_span opn cls depth Quoted cs"
| "first_span opn cls depth Quoted (c # cs) =
     first_span opn cls depth
       (if c = CHR 0x5C then Escaped else if c = CHR 0x22 then Plain else Quoted) cs"
| "first_span opn cls depth Plain (c # cs) =
     (if c = CHR 0x22 then first_span opn cls depth Quoted cs
      else if c = opn \<and> depth = 0 \<and> cls \<in> set cs then Some (c # upto_last cls cs)
      else if c = CHR ''['' \<or> c = CHR ''{'' then first_span opn cls (Suc depth) Plain cs
      else if c = CHR '']'' \<or> c = CHR ''}'' then first_span opn cls (depth - 1) Plain cs
      else first_span opn cls depth Plain cs)"

definition spec_extract_json :: "string \<Rightarrow> string" where
  "spec_extract_json raw_output =
     (let text = remove_fence [] (remove_fence ''json'' raw_output)
      in case first_span CHR ''['' CHR '']'' 0 Plain text of
           Some span \<Rightarrow> span
         | None \<Rightarrow>
             (case first_span CHR ''{'' CHR ''}'' 0 Plain text of
                Some span \<Rightarrow> span
              | None \<Rightarrow> py_strip text))"

text \<open>
  An opening bracket starts a span when a closing bracket of its kind stands somewhere
  after it.
\<close>

definition starts_span :: "char \<Rightarrow> string \<Rightarrow> bool" where
  "starts_span c rest \<longleftrightarrow>
     (c = CHR ''['' \<and> CHR '']'' \<in> set rest) \<or> (c = CHR ''{'' \<and> CHR ''}'' \<in> set rest)"

definition closing :: "char \<Rightarrow> char" where
  "closing c = (if c = CHR ''['' then CHR '']'' else CHR ''}'')"

text \<open>
  The specification's requirement on a multiple-choice record: its \<^verbatim>\<open>correct_answer\<close> is one
  of the labels of its own \<^verbatim>\<open>options\<close>.
\<close>

definition answer_is_label :: "dict \<Rightarrow> bool" where
  "answer_is_label r =
     (case (map_of r ''correct_answer'', map_of r ''options'') of
        (Some (JStr a), Some (JObj opts)) \<Rightarrow> a \<in> fst ` set opts
      | _ \<Rightarrow> False)"

text \<open>The text fields of a coding element, in the order \<^verbatim>\<open>_parse_coding\<close> reads them.\<close>

definition coding_text_keys :: "string list" where
  "coding_text_keys =
     [''question'', ''input'', ''output'', ''constraints'', ''expected_output_example'']"

section \<open>Evaluation on concrete inputs\<close>

text \<open>
  A decoder for a concrete input is given as a table from the text that reaches
  \<^verbatim>\<open>json.loads\<close> to the value it decodes to; on a text outside the table it raises
  \<^verbatim>\<open>json.JSONDecodeError\<close>. The equations below unfold the model on a concrete input.
\<close>

definition loads_of :: "(string \<times> json) list \<Rightarrow> string \<Rightarrow> error + json" where
  "loads_of table s = (case map_of table s of Some v \<Rightarrow> Inr v | None \<Rightarrow> Inl JSONDecodeError)"

lemmas eval_defs = loads_of_def parse_coding_def parse_mcq_def parse_fillup_def extract_json_def
  coding_validate_def mcq_validate_def fillup_validate_def get_strip_def dict_get_def
  is_space_def py_strip_def upto_last_def slice_to_def
  generate_fallback_coding_def generate_fallback_mcq_def generate_fallback_fillup_def
  time_limits_def str_int_def str_nat.simps digit_char_def upto.simps

section \<open>What the validation of one element returns\<close>

lemma mcq_validate_Some:
  "mcq_validate topic difficulty i q = Some v \<longleftrightarrow>
     v = [(''id'', dict_get q ''id'' (JInt i)),
          (''topic'', dict_get q ''topic'' (JStr topic)),
          (''difficulty'', dict_get q ''difficulty'' (JStr difficulty)),
          (''type'', JStr ''mcq''),
          (''question'', dict_get q ''question'' (JStr [])),
          (''options'', dict_get q ''options'' (JObj [])),
          (''correct_answer'', dict_get q ''correct_answer'' (JStr ''A'')),
          (''explanation'', dict_get q ''explanation'' (JStr []))]
     \<and> truthy (dict_get q ''question'' (JStr [])) \<and> truthy (dict_get q ''options'' (JObj []))"
  by (auto simp: mcq_validate_def Let_def dict_get_def)

lemma fillup_validate_Some:
  "fillup_validate topic difficulty i q = Some v \<longleftrightarrow>
     v = [(''id'', dict_get q ''id'' (JInt i)),
          (''topic'', dict_get q ''topic'' (JStr topic)),
          (''difficulty'', dict_get q ''difficulty'' (JStr difficulty)),
          (''type'', JStr ''fillup''),
          (''question'', dict_get q ''question'' (JStr [])),
          (''correct_word'', dict_get q ''correct_word'' (JStr [])),
          (''hint'', dict_get q ''hint'' (JStr [])),
          (''explanation'', dict_get q ''explanation'' (JStr []))]
     \<and> truthy (dict_get q ''question'' (JStr []))
     \<and> truthy (dict_get q ''correct_word'' (JStr []))"
  by (auto simp: fillup_validate_def Let_def dict_get_def)

lemma coding_validate_Some:
  "coding_validate topic difficulty i q = Inr (Some v) \<longleftrightarrow>
     (\<exists>question input output constraints example.
        get_strip q ''question'' = Inr question \<and>
        get_strip q ''input'' = Inr input \<and>
        get_strip q ''output'' = Inr output \<and>
        get_strip q ''constraints'' = Inr constraints \<and>
        get_strip q ''expected_output_example'' = Inr example \<and>
        question \<noteq> [] \<and> input \<noteq> [] \<and> output \<noteq> [] \<and>
        v = [(''id'', dict_get q ''id'' (JInt i)),
             (''topic'', dict_get q ''topic'' (JStr topic)),
             (''difficulty'', dict_get q ''difficulty'' (JStr difficulty)),
             (''type'', JStr ''coding''),
             (''question'', JStr question),
             (''input'', JStr input),
             (''output'', JStr output),
             (''constraints'', JStr constraints),
             (''expected_output_example'', JStr example),
             (''time_limit_seconds'', dict_get q ''time_limit_seconds'' (JInt 120))])"
  by (auto simp: coding_validate_def Let_def dict_get_def [of "_ # _"] split: sum.splits)

lemma mcq_loop_enumerate:
  "mcq_loop topic difficulty (i + int n) qs acc =
     acc @ List.map_filter
             (\<lambda>(k, q). case q of JObj d \<Rightarrow> mcq_validate topic difficulty (i + int k) d | _ \<Rightarrow> None)
             (List.enumerate n qs)"
proof (induction qs arbitrary: n acc)
  case Nil
  show ?case by (simp add: List.map_filter_simps)
next
  case (Cons q qs)
  have step: "i + int n + 1 = i + int (Suc n)" by simp
  show ?case
    by (simp only: mcq_loop.simps step Cons.IH)
       (simp add: List.map_filter_simps split: json.split option.split)
qed

lemma fillup_loop_enumerate:
  "fillup_loop topic difficulty (i + int n) qs acc =
     acc @ List.map_filter
             (\<lambda>(k, q). case q of JObj d \<Rightarrow> fillup_validate topic difficulty (i + int k) d | _ \<Rightarrow> None)
             (List.enumerate n qs)"
proof (induction qs arbitrary: n acc)
  case Nil
  show ?case by (simp add: List.map_filter_simps)
next
  case (Cons q qs)
  have step: "i + int n + 1 = i + int (Suc n)" by simp
  show ?case
    by (simp only: fillup_loop.simps step Cons.IH)
       (simp add: List.map_filter_simps split: json.split option.split)
qed

lemma coding_loop_enumerate:
  "coding_loop topic difficulty (i + int n) qs acc = Inr rs \<Longrightarrow>
     rs = acc @ List.map_filter
             (\<lambda>(k, q). case q of
                  JObj d \<Rightarrow> (case coding_validate topic difficulty (i + int k) d of
                               Inr (Some v) \<Rightarrow> Some v | _ \<Rightarrow> None)
                | _ \<Rightarrow> None)
             (List.enumerate n qs)"
proof (induction qs arbitrary: n acc)
  case Nil
  then show ?case by (simp add: List.map_filter_simps)
next
  case (Cons q qs)
  let ?f = "\<lambda>(k, q). case q of
                  JObj d \<Rightarrow> (case coding_validate topic difficulty (i + int k) d of
                               Inr (Some v) \<Rightarrow> Some v | _ \<Rightarrow> None)
                | _ \<Rightarrow> None"
  have eq: "i + int n + 1 = i + int (Suc n)" by simp
  from Cons.prems
  have "\<exists>acc'. coding_loop topic difficulty (i + int (Suc n)) qs acc' = Inr rs
               \<and> acc' = acc @ List.map_filter ?f [(n, q)]"
    unfolding coding_loop.simps eq
    by (cases q) (auto simp: List.map_filter_simps split: sum.splits option.splits)
  then obtain acc' where rec: "coding_loop topic difficulty (i + int (Suc n)) qs acc' = Inr rs"
    and acc': "acc' = acc @ List.map_filter ?f [(n, q)]" by blast
  from Cons.IH [OF rec] show ?case
    by (simp add: acc' List.map_filter_def)
qed

lemma coding_loop_returns:
  "(\<forall>k < length qs. \<forall>d. qs ! k = JObj d \<longrightarrow>
       (\<exists>r. coding_validate topic difficulty (i + int (n + k)) d = Inr r)) \<Longrightarrow>
   \<exists>rs. coding_loop topic difficulty (i + int n) qs acc = Inr rs"
proof (induction qs arbitrary: n acc)
  case Nil
  show ?case by simp
next
  case (Cons q qs)
  have step: "i + int n + 1 = i + int (Suc n)" by simp
  have tl: "\<forall>k < length qs. \<forall>d. qs ! k = JObj d \<longrightarrow>
       (\<exists>r. coding_validate topic difficulty (i + int (Suc n + k)) d = Inr r)"
  proof (intro allI impI)
    fix k d assume "k < length qs" "qs ! k = JObj d"
    with Cons.prems [rule_format, of "Suc k" d]
    show "\<exists>r. coding_validate topic difficulty (i + int (Suc n + k)) d = Inr r" by simp
  qed
  have hd: "\<And>d. q = JObj d \<Longrightarrow> \<exists>r. coding_validate topic difficulty (i + int n) d = Inr r"
    using Cons.prems [rule_format, of 0] by simp
  show ?case
    using Cons.IH [OF tl] hd
    by (cases q) (auto simp: step split: option.splits sum.splits)
qed

section \<open>Facts about the fallback records and the loops\<close>

lemma length_generate_fallback:
  "length (generate_fallback_mcq topic difficulty count) = nat count"
  "length (generate_fallback_fillup topic difficulty count) = nat count"
  "length (generate_fallback_coding topic difficulty count) = nat count"
  by (simp_all add: generate_fallback_mcq_def generate_fallback_fillup_def
        generate_fallback_coding_def)

lemma type_generate_fallback:
  "r \<in> set (generate_fallback_mcq topic difficulty count) \<Longrightarrow>
     map_of r ''type'' = Some (JStr ''mcq'')"
  "r \<in> set (generate_fallback_fillup topic difficulty count) \<Longrightarrow>
     map_of r ''type'' = Some (JStr ''fillup'')"
  "r \<in> set (generate_fallback_coding topic difficulty count) \<Longrightarrow>
     map_of r ''type'' = Some (JStr ''coding'')"
  by (auto simp: generate_fallback_mcq_def generate_fallback_fillup_def
        generate_fallback_coding_def)

lemma type_mcq_loop:
  "r \<in> set (mcq_loop topic difficulty i qs []) \<Longrightarrow> map_of r ''type'' = Some (JStr ''mcq'')"
  using mcq_loop_enumerate [of topic difficulty i 0 qs "[]"]
  by (auto simp: List.map_filter_def mcq_validate_Some split: json.splits)

lemma type_fillup_loop:
  "r \<in> set (fillup_loop topic difficulty i qs []) \<Longrightarrow>
     map_of r ''type'' = Some (JStr ''fillup'')"
  using fillup_loop_enumerate [of topic difficulty i 0 qs "[]"]
  by (auto simp: List.map_filter_def fillup_validate_Some split: json.splits)

lemma type_coding_loop:
  assumes "coding_loop topic difficulty i qs [] = Inr rs" and "r \<in> set rs"
  shows "map_of r ''type'' = Some (JStr ''coding'')"
proof -
  from assms(1) have "coding_loop topic difficulty (i + int 0) qs [] = Inr rs" by simp
  from coding_loop_enumerate [OF this] assms(2) show ?thesis
    by (auto simp: List.map_filter_def coding_validate_Some
             split: json.splits sum.splits option.splits)
qed

lemma set_slice_to: "set (slice_to n xs) \<subseteq> set xs"
  by (auto simp: slice_to_def dest: in_set_takeD)

lemma py_strip_Nil_iff: "py_strip s = [] \<longleftrightarrow> (\<forall>c \<in> set s. is_space c)"
proof
  assume "py_strip s = []"
  then have "\<forall>c \<in> set (dropWhile is_space s). is_space c"
    by (auto simp: py_strip_def dropWhile_eq_Nil_conv dest: set_dropWhileD)
  then have "dropWhile is_space s = []"
    using hd_dropWhile [of is_space s] by (cases "dropWhile is_space s") auto
  then show "\<forall>c \<in> set s. is_space c" by (simp add: dropWhile_eq_Nil_conv)
next
  assume "\<forall>c \<in> set s. is_space c"
  then have blank: "dropWhile is_space s = []" by (simp add: dropWhile_eq_Nil_conv)
  show "py_strip s = []" unfolding py_strip_def blank by simp
qed

lemma get_strip_blank:
  "dict_get q k (JStr []) = JStr s \<Longrightarrow> \<forall>c \<in> set s. is_space c \<Longrightarrow> get_strip q k = Inr []"
  by (simp add: get_strip_def py_strip_Nil_iff)

lemma get_strip_string:
  "dict_get q k (JStr []) = JStr s \<Longrightarrow> get_strip q k = Inr (py_strip s)"
  by (simp add: get_strip_def)

section \<open>Mandatory fields of the returned records\<close>

text \<open>
  Claim C1: every record that \<^verbatim>\<open>_parse_mcq\<close>, \<^verbatim>\<open>_parse_fillup\<close> or \<^verbatim>\<open>_parse_coding\<close> returns has
  the mandatory fields of its kind present and non-empty, the records of the fallback
  generators included; for coding these fields are \<^verbatim>\<open>question\<close>, \<^verbatim>\<open>input\<close> and \<^verbatim>\<open>output\<close>.
  The code does not do this for coding: on text that is not JSON, \<^verbatim>\<open>_parse_coding\<close> returns
  the record of \<^verbatim>\<open>_generate_fallback_coding\<close>, which has the keys \<^verbatim>\<open>function_name\<close>,
  \<^verbatim>\<open>test_input\<close> and \<^verbatim>\<open>expected_output\<close> and neither \<^verbatim>\<open>input\<close> nor \<^verbatim>\<open>output\<close>.
\<close>

theorem parse_coding_fallback_record:
  \<open>parse_coding (loads_of []) ''not json at all'' ''Python'' ''easy'' 1 =
     Inr [[(''id'', JInt 1),
           (''topic'', JStr ''Python''),
           (''difficulty'', JStr ''easy''),
           (''type'', JStr ''coding''),
           (''question'', JStr ''Write a function for Python (Question 1)''),
           (''function_name'', JStr ''solve_1''),
           (''test_input'', JStr ''input''),
           (''expected_output'', JStr ''output''),
           (''time_limit_seconds'', JInt 120)]]\<close>
  by (simp add: eval_defs)

section \<open>Exceptions that leave the parsers\<close>

text \<open>
  Claim C2: the recovery pipeline never raises to its caller, whatever JSON types the
  fields of the decoded elements have. \<^verbatim>\<open>_parse_coding\<close> does raise: it calls \<^verbatim>\<open>.strip()\<close> on
  the field \<^verbatim>\<open>question\<close>, here the number 7, and its \<^verbatim>\<open>except\<close> clause catches only
  \<^verbatim>\<open>json.JSONDecodeError\<close> and \<^verbatim>\<open>ValueError\<close>, so the \<^verbatim>\<open>AttributeError\<close> reaches the caller.
\<close>

theorem parse_coding_raises_on_number:
  \<open>parse_coding
     (loads_of [(''[{"question": 7, "input": "n", "output": "n"}]'',
               JArr [JObj [(''question'', JInt 7), (''input'', JStr ''n''),
                           (''output'', JStr ''n'')]])])
     ''[{"question": 7, "input": "n", "output": "n"}]'' ''Python'' ''easy'' 1
   = Inl AttributeError\<close>
  by (simp add: eval_defs)

section \<open>The time limit of a coding record\<close>

text \<open>
  Claim C4: a coding record whose source element has no \<^verbatim>\<open>time_limit_seconds\<close> gets the
  default of its difficulty, 180 for \<^verbatim>\<open>medium\<close>. \<^verbatim>\<open>_parse_coding\<close> fills in 120 whatever the
  difficulty is; only \<^verbatim>\<open>_generate_fallback_coding\<close> looks the difficulty up.
\<close>

theorem parse_coding_medium_time_limit:
  \<open>parse_coding
     (loads_of [(''[{"question": "q", "input": "i", "output": "o"}]'',
               JArr [JObj [(''question'', JStr ''q''), (''input'', JStr ''i''),
                           (''output'', JStr ''o'')]])])
     ''[{"question": "q", "input": "i", "output": "o"}]'' ''Python'' ''medium'' 1
   = Inr [[(''id'', JInt 1),
           (''topic'', JStr ''Python''),
           (''difficulty'', JStr ''medium''),
           (''type'', JStr ''coding''),
           (''question'', JStr ''q''),
           (''input'', JStr ''i''),
           (''output'', JStr ''o''),
           (''constraints'', JStr []),
           (''expected_output_example'', JStr []),
           (''time_limit_seconds'', JInt 120)]]\<close>
  by (simp add: eval_defs)

section \<open>The type field\<close>

text \<open>
  Claim C9: every record returned by a parse or fallback path has its \<^verbatim>\<open>type\<close> field equal
  to the constant of the requested kind, \<^verbatim>\<open>mcq\<close>, \<^verbatim>\<open>fillup\<close> or \<^verbatim>\<open>coding\<close>, whatever \<^verbatim>\<open>type\<close> the
  source element carries. It holds of the records of the three fallback generators, and of
  every list a parser returns, for every decoder and every text; a call that raises
  returns no record.
\<close>

theorem returned_type_is_kind:
  "(\<forall>r \<in> set (generate_fallback_mcq topic difficulty count).
       map_of r ''type'' = Some (JStr ''mcq''))
   \<and> (\<forall>r \<in> set (generate_fallback_fillup topic difficulty count).
       map_of r ''type'' = Some (JStr ''fillup''))
   \<and> (\<forall>r \<in> set (generate_fallback_coding topic difficulty count).
       map_of r ''type'' = Some (JStr ''coding''))
   \<and> (\<forall>rs. parse_mcq loads raw_output topic difficulty count = Inr rs \<longrightarrow>
         (\<forall>r \<in> set rs. map_of r ''type'' = Some (JStr ''mcq'')))
   \<and> (\<forall>rs. parse_fillup loads raw_output topic difficulty count = Inr rs \<longrightarrow>
         (\<forall>r \<in> set rs. map_of r ''type'' = Some (JStr ''fillup'')))
   \<and> (\<forall>rs. parse_coding loads raw_output topic difficulty count = Inr rs \<longrightarrow>
         (\<forall>r \<in> set rs. map_of r ''type'' = Some (JStr ''coding'')))"
proof (intro conjI ballI allI impI)
  fix r assume "r \<in> set (generate_fallback_mcq topic difficulty count)"
  then show "map_of r ''type'' = Some (JStr ''mcq'')" by (rule type_generate_fallback)
next
  fix r assume "r \<in> set (generate_fallback_fillup topic difficulty count)"
  then show "map_of r ''type'' = Some (JStr ''fillup'')" by (rule type_generate_fallback)
next
  fix r assume "r \<in> set (generate_fallback_coding topic difficulty count)"
  then show "map_of r ''type'' = Some (JStr ''coding'')" by (rule type_generate_fallback)
next
  fix rs r
  assume "parse_mcq loads raw_output topic difficulty count = Inr rs" and "r \<in> set rs"
  then show "map_of r ''type'' = Some (JStr ''mcq'')"
    by (auto simp: parse_mcq_def Let_def mcq_validate_Some
             dest: type_generate_fallback type_mcq_loop
             split: sum.splits option.splits json.splits if_splits)
next
  fix rs r
  assume "parse_fillup loads raw_output topic difficulty count = Inr rs" and "r \<in> set rs"
  then show "map_of r ''type'' = Some (JStr ''fillup'')"
    by (auto simp: parse_fillup_def Let_def fillup_validate_Some
             dest: type_generate_fallback type_fillup_loop
             split: sum.splits option.splits json.splits if_splits)
next
  fix rs r
  assume "parse_coding loads raw_output topic difficulty count = Inr rs" and r: "r \<in> set rs"
  then consider
      (fallback) "rs = generate_fallback_coding topic difficulty count"
    | (kept) elems valid where "coding_loop topic difficulty 1 elems [] = Inr valid"
        and "rs = slice_to count valid"
    by (auto simp: parse_coding_def Let_def split: json.splits sum.splits if_splits)
  then show "map_of r ''type'' = Some (JStr ''coding'')"
  proof cases
    case fallback
    with r show ?thesis by (auto dest: type_generate_fallback)
  next
    case kept
    with r set_slice_to [of count valid] have "r \<in> set valid" by auto
    with kept(1) show ?thesis by (rule type_coding_loop)
  qed
qed

theorem returned_type_is_kind_witness:
  \<open>let txt = ''[{"type":"essay","question":"q","options":{"A":"x"},"correct_word":"w","input":"i","output":"o"}]'';
       loads = loads_of [(txt,
                 JArr [JObj [(''type'', JStr ''essay''), (''question'', JStr ''q''),
                             (''options'', JObj [(''A'', JStr ''x'')]),
                             (''correct_word'', JStr ''w''),
                             (''input'', JStr ''i''), (''output'', JStr ''o'')]])]
   in map_sum id (map (\<lambda>r. map_of r ''type'')) (parse_mcq loads txt ''Python'' ''easy'' 1)
        = Inr [Some (JStr ''mcq'')]
    \<and> map_sum id (map (\<lambda>r. map_of r ''type'')) (parse_fillup loads txt ''Python'' ''easy'' 1)
        = Inr [Some (JStr ''fillup'')]
    \<and> map_sum id (map (\<lambda>r. map_of r ''type'')) (parse_coding loads txt ''Python'' ''easy'' 1)
        = Inr [Some (JStr ''coding'')]
    \<and> map (\<lambda>r. map_of r ''type'') (generate_fallback_mcq ''Python'' ''easy'' 1)
        = [Some (JStr ''mcq'')]
    \<and> map (\<lambda>r. map_of r ''type'') (generate_fallback_fillup ''Python'' ''easy'' 1)
        = [Some (JStr ''fillup'')]
    \<and> map (\<lambda>r. map_of r ''type'') (generate_fallback_coding ''Python'' ''easy'' 1)
        = [Some (JStr ''coding'')]\<close>
  using returned_type_is_kind
    [of \<open>''Python''\<close> \<open>''easy''\<close> 1
        \<open>loads_of [(''[{"type":"essay","question":"q","options":{"A":"x"},"correct_word":"w","input":"i","output":"o"}]'',
                 JArr [JObj [(''type'', JStr ''essay''), (''question'', JStr ''q''),
                             (''options'', JObj [(''A'', JStr ''x'')]),
                             (''correct_word'', JStr ''w''),
                             (''input'', JStr ''i''), (''output'', JStr ''o'')]])]\<close>
        \<open>''[{"type":"essay","question":"q","options":{"A":"x"},"correct_word":"w","input":"i","output":"o"}]''\<close>]
  by (simp add: eval_defs)

section \<open>Trimming before the mandatory-field check\<close>

text \<open>
  The checks of \<^verbatim>\<open>_parse_mcq\<close> and \<^verbatim>\<open>_parse_fillup\<close> read the value as decoded, so an element
  whose \<^verbatim>\<open>question\<close> or \<^verbatim>\<open>correct_word\<close> is a non-empty string of whitespace only is kept (its
  other mandatory field being non-empty), with that text unchanged. \<^verbatim>\<open>_parse_coding\<close> strips
  first, so an element whose \<^verbatim>\<open>question\<close>, \<^verbatim>\<open>input\<close> or \<^verbatim>\<open>output\<close> is whitespace only is never
  kept; it is dropped when its five text fields are strings, which is what \<^verbatim>\<open>.strip()\<close>
  needs to run.
\<close>

lemma whitespace_only_fields:
  "(dict_get q ''question'' (JStr []) = JStr s \<and> s \<noteq> [] \<and> (\<forall>c \<in> set s. is_space c)
      \<and> truthy (dict_get q ''options'' (JObj []))
     \<longrightarrow> (\<exists>v. mcq_validate topic difficulty i q = Some v
              \<and> map_of v ''question'' = Some (JStr s)))
   \<and> (dict_get q ''question'' (JStr []) = JStr s \<and> s \<noteq> [] \<and> (\<forall>c \<in> set s. is_space c)
      \<and> truthy (dict_get q ''correct_word'' (JStr []))
     \<longrightarrow> (\<exists>v. fillup_validate topic difficulty i q = Some v
              \<and> map_of v ''question'' = Some (JStr s)))
   \<and> (dict_get q ''correct_word'' (JStr []) = JStr s \<and> s \<noteq> [] \<and> (\<forall>c \<in> set s. is_space c)
      \<and> truthy (dict_get q ''question'' (JStr []))
     \<longrightarrow> (\<exists>v. fillup_validate topic difficulty i q = Some v
              \<and> map_of v ''correct_word'' = Some (JStr s)))
   \<and> (k \<in> {''question'', ''input'', ''output''}
      \<and> dict_get q k (JStr []) = JStr s \<and> (\<forall>c \<in> set s. is_space c)
     \<longrightarrow> (\<forall>v. coding_validate topic difficulty i q \<noteq> Inr (Some v))
       \<and> ((\<forall>f \<in> set coding_text_keys. \<exists>t. dict_get q f (JStr []) = JStr t)
            \<longrightarrow> coding_validate topic difficulty i q = Inr None))"
proof (intro conjI impI; (elim conjE)?)
  assume "dict_get q ''question'' (JStr []) = JStr s" "s \<noteq> []"
    "truthy (dict_get q ''options'' (JObj []))"
  then show "\<exists>v. mcq_validate topic difficulty i q = Some v
              \<and> map_of v ''question'' = Some (JStr s)"
    by (simp add: mcq_validate_Some)
next
  assume "dict_get q ''question'' (JStr []) = JStr s" "s \<noteq> []"
    "truthy (dict_get q ''correct_word'' (JStr []))"
  then show "\<exists>v. fillup_validate topic difficulty i q = Some v
              \<and> map_of v ''question'' = Some (JStr s)"
    by (simp add: fillup_validate_Some)
next
  assume "dict_get q ''correct_word'' (JStr []) = JStr s" "s \<noteq> []"
    "truthy (dict_get q ''question'' (JStr []))"
  then show "\<exists>v. fillup_validate topic difficulty i q = Some v
              \<and> map_of v ''correct_word'' = Some (JStr s)"
    by (simp add: fillup_validate_Some)
next
  assume k: "k \<in> {''question'', ''input'', ''output''}"
    and s: "dict_get q k (JStr []) = JStr s" "\<forall>c \<in> set s. is_space c"
  from s have blank: "get_strip q k = Inr []" by (rule get_strip_blank)
  with k show "\<forall>v. coding_validate topic difficulty i q \<noteq> Inr (Some v)"
    by (auto simp: coding_validate_Some)
next
  assume k: "k \<in> {''question'', ''input'', ''output''}"
    and s: "dict_get q k (JStr []) = JStr s" "\<forall>c \<in> set s. is_space c"
    and str: "\<forall>f \<in> set coding_text_keys. \<exists>t. dict_get q f (JStr []) = JStr t"
  from s have blank: "get_strip q k = Inr []" by (rule get_strip_blank)
  from str obtain t1 t2 t3 t4 t5 where
    "get_strip q ''question'' = Inr t1" "get_strip q ''input'' = Inr t2"
    "get_strip q ''output'' = Inr t3" "get_strip q ''constraints'' = Inr t4"
    "get_strip q ''expected_output_example'' = Inr t5"
    by (auto simp: coding_text_keys_def get_strip_def)
  with k blank show "coding_validate topic difficulty i q = Inr None"
    by (auto simp: coding_validate_def Let_def dict_get_def [of "_ # _"])
qed

lemma whitespace_only_fields_example:
  "mcq_validate ''Python'' ''easy'' 1
     [(''question'', JStr ''   ''), (''options'', JObj [(''A'', JStr ''x'')]),
      (''correct_word'', JStr ''   ''), (''input'', JStr ''i''), (''output'', JStr ''o'')] \<noteq> None
   \<and> fillup_validate ''Python'' ''easy'' 1
     [(''question'', JStr ''   ''), (''options'', JObj [(''A'', JStr ''x'')]),
      (''correct_word'', JStr ''   ''), (''input'', JStr ''i''), (''output'', JStr ''o'')] \<noteq> None
   \<and> coding_validate ''Python'' ''easy'' 1
     [(''question'', JStr ''   ''), (''options'', JObj [(''A'', JStr ''x'')]),
      (''correct_word'', JStr ''   ''), (''input'', JStr ''i''), (''output'', JStr ''o'')] = Inr None"
  using whitespace_only_fields
    [of "[(''question'', JStr ''   ''), (''options'', JObj [(''A'', JStr ''x'')]),
          (''correct_word'', JStr ''   ''), (''input'', JStr ''i''), (''output'', JStr ''o'')]"
        "''   ''" "''Python''" "''easy''" 1 "''question''"]
  by (simp add: eval_defs coding_text_keys_def)

text \<open>
  Claim C10: the check for \<^verbatim>\<open>mcq\<close> and \<^verbatim>\<open>fillup\<close> does not trim, so an element whose
  \<^verbatim>\<open>question\<close> or \<^verbatim>\<open>correct_word\<close> is whitespace only is kept; only the coding kind strips its
  text fields before the check, so a whitespace-only \<^verbatim>\<open>question\<close>, \<^verbatim>\<open>input\<close> or \<^verbatim>\<open>output\<close> causes
  a coding element to be dropped. The first half is what the lemma above proves. The
  element below has a whitespace-only \<^verbatim>\<open>question\<close> and is not dropped: \<^verbatim>\<open>_parse_coding\<close> builds
  the whole record before it checks, \<^verbatim>\<open>.strip()\<close> on the numeric \<^verbatim>\<open>constraints\<close> raises
  \<^verbatim>\<open>AttributeError\<close>, and the caller gets the exception where dropping the element would
  have given the fallback records.
\<close>

theorem parse_coding_blank_question_raises:
  \<open>parse_coding
     (loads_of [(''[{"question": "   ", "input": "i", "output": "o", "constraints": 5}]'',
                 JArr [JObj [(''question'', JStr ''   ''), (''input'', JStr ''i''),
                             (''output'', JStr ''o''), (''constraints'', JInt 5)]])])
     ''[{"question": "   ", "input": "i", "output": "o", "constraints": 5}]''
     ''Python'' ''easy'' 1
   = Inl AttributeError\<close>
  by (simp add: eval_defs)

section \<open>Failures of the completion service\<close>





section \<open>The correct answer of a multiple-choice record\<close>

text \<open>
  Claim C8: every multiple-choice record the pipeline returns has a \<^verbatim>\<open>correct_answer\<close> that
  is one of the labels of its own \<^verbatim>\<open>options\<close>. \<^verbatim>\<open>_parse_mcq\<close> never compares the two: for an
  element with the single option \<^verbatim>\<open>B\<close> and no \<^verbatim>\<open>correct_answer\<close> it returns a record whose
  answer is the default \<^verbatim>\<open>A\<close>.
\<close>

theorem parse_mcq_answer_not_label:
  \<open>parse_mcq
     (loads_of [(''[{"question":"q","options":{"B":"x"}}]'',
                 JArr [JObj [(''question'', JStr ''q''),
                             (''options'', JObj [(''B'', JStr ''x'')])]])])
     ''[{"question":"q","options":{"B":"x"}}]'' ''Python'' ''easy'' 1
   = Inr [[(''id'', JInt 1), (''topic'', JStr ''Python''), (''difficulty'', JStr ''easy''),
           (''type'', JStr ''mcq''), (''question'', JStr ''q''),
           (''options'', JObj [(''B'', JStr ''x'')]), (''correct_answer'', JStr ''A''),
           (''explanation'', JStr [])]]
   \<and> \<not> answer_is_label
        [(''id'', JInt 1), (''topic'', JStr ''Python''), (''difficulty'', JStr ''easy''),
         (''type'', JStr ''mcq''), (''question'', JStr ''q''),
         (''options'', JObj [(''B'', JStr ''x'')]), (''correct_answer'', JStr ''A''),
         (''explanation'', JStr [])]\<close>
  by (simp add: eval_defs answer_is_label_def)

text \<open>
  Claim C8 as amended: every fallback record has the \<^verbatim>\<open>correct_answer\<close> \<^verbatim>\<open>A\<close> and the four
  options \<^verbatim>\<open>A\<close>, \<^verbatim>\<open>B\<close>, \<^verbatim>\<open>C\<close> and \<^verbatim>\<open>D\<close>, so its answer is one of its labels. A record kept from a
  decoded element carries the element's \<^verbatim>\<open>correct_answer\<close> (\<^verbatim>\<open>A\<close> when it has none) and the
  element's \<^verbatim>\<open>options\<close> unchanged, so its answer is one of its labels exactly when that holds
  of these two values of the source.
\<close>

theorem mcq_answer_as_given:
  "list_all
     (\<lambda>r. map_of r ''correct_answer'' = Some (JStr ''A'')
         \<and> map_of r ''options'' =
             Some (JObj [(''A'', JStr ''Option A''), (''B'', JStr ''Option B''),
                         (''C'', JStr ''Option C''), (''D'', JStr ''Option D'')])
         \<and> answer_is_label r)
     (generate_fallback_mcq topic difficulty count)
   \<and> (mcq_validate topic difficulty i q = Some v \<longrightarrow>
        map_of v ''correct_answer'' = Some (dict_get q ''correct_answer'' (JStr ''A''))
        \<and> map_of v ''options'' = Some (dict_get q ''options'' (JObj []))
        \<and> (answer_is_label v \<longleftrightarrow>
             answer_is_label [(''correct_answer'', dict_get q ''correct_answer'' (JStr ''A'')),
                              (''options'', dict_get q ''options'' (JObj []))]))"
  by (auto simp: generate_fallback_mcq_def list_all_iff answer_is_label_def mcq_validate_Some)

theorem mcq_answer_as_given_witness:
  "mcq_validate ''Python'' ''easy'' 1
     [(''question'', JStr ''q''), (''options'', JObj [(''B'', JStr ''x'')]),
      (''correct_answer'', JStr ''B'')]
     = Some [(''id'', JInt 1), (''topic'', JStr ''Python''), (''difficulty'', JStr ''easy''),
             (''type'', JStr ''mcq''), (''question'', JStr ''q''),
             (''options'', JObj [(''B'', JStr ''x'')]), (''correct_answer'', JStr ''B''),
             (''explanation'', JStr [])]
   \<and> answer_is_label
        [(''id'', JInt 1), (''topic'', JStr ''Python''), (''difficulty'', JStr ''easy''),
         (''type'', JStr ''mcq''), (''question'', JStr ''q''),
         (''options'', JObj [(''B'', JStr ''x'')]), (''correct_answer'', JStr ''B''),
         (''explanation'', JStr [])]
   \<and> map (\<lambda>r. (map_of r ''correct_answer'', map_of r ''options''))
        (generate_fallback_mcq ''Python'' ''easy'' 1)
     = [(Some (JStr ''A''),
         Some (JObj [(''A'', JStr ''Option A''), (''B'', JStr ''Option B''),
                     (''C'', JStr ''Option C''), (''D'', JStr ''Option D'')]))]"
  using mcq_answer_as_given
    [of "''Python''" "''easy''" 1 1
        "[(''question'', JStr ''q''), (''options'', JObj [(''B'', JStr ''x'')]),
          (''correct_answer'', JStr ''B'')]"
        "[(''id'', JInt 1), (''topic'', JStr ''Python''), (''difficulty'', JStr ''easy''),
          (''type'', JStr ''mcq''), (''question'', JStr ''q''),
          (''options'', JObj [(''B'', JStr ''x'')]), (''correct_answer'', JStr ''B''),
          (''explanation'', JStr [])]"]
  by (simp add: eval_defs answer_is_label_def)

section \<open>The span that Stage A returns\<close>

lemma upto_last_append:
  "c \<notin> set post \<Longrightarrow> upto_last c (body @ c # post) = body @ [c]"
  by (simp add: upto_last_def dropWhile_append)

lemma search_span_start:
  "starts_span c rest \<Longrightarrow> search_span (c # rest) = Some (c # upto_last (closing c) rest)"
  by (auto simp: starts_span_def closing_def)

lemma search_span_skip:
  "(\<And>p1 d p2. pre = p1 @ d # p2 \<Longrightarrow> \<not> starts_span d (p2 @ suf)) \<Longrightarrow>
     search_span (pre @ suf) = search_span suf"
proof (induction pre)
  case Nil
  show ?case by simp
next
  case (Cons a pre)
  have "\<not> starts_span a (pre @ suf)" using Cons.prems [of "[]" a pre] by simp
  moreover have "search_span (pre @ suf) = search_span suf"
  proof (rule Cons.IH)
    fix p1 d p2 assume "pre = p1 @ d # p2"
    then show "\<not> starts_span d (p2 @ suf)" using Cons.prems [of "a # p1" d p2] by simp
  qed
  ultimately show ?case by (auto simp: starts_span_def)
qed

lemma search_span_None:
  "(\<And>pre c rest. t = pre @ c # rest \<Longrightarrow> \<not> starts_span c rest) \<Longrightarrow> search_span t = None"
proof (induction t)
  case Nil
  show ?case by simp
next
  case (Cons a t)
  have "\<not> starts_span a t" using Cons.prems [of "[]" a t] by simp
  moreover have "search_span t = None"
  proof (rule Cons.IH)
    fix pre c rest assume "t = pre @ c # rest"
    then show "\<not> starts_span c rest" using Cons.prems [of "a # pre" c rest] by simp
  qed
  ultimately show ?case by (auto simp: starts_span_def)
qed

lemma remove_fence_other:
  "\<not> prefix ''```'' (c # cs) \<Longrightarrow> remove_fence [] (c # cs) = c # remove_fence [] cs"
  by auto

lemma remove_fence_backtick1:
  assumes "prefix ''`'' (remove_fence [] s)"
  shows "prefix ''`'' s"
proof (cases s)
  case Nil
  with assms show ?thesis by simp
next
  case (Cons c cs)
  show ?thesis
  proof (cases "prefix ''```'' (c # cs)")
    case True
    then have "c = CHR 0x60" by auto
    with Cons show ?thesis by auto
  next
    case False
    from assms show ?thesis
      unfolding Cons remove_fence_other [OF False] by simp
  qed
qed

lemma remove_fence_backtick2:
  assumes "prefix ''``'' (remove_fence [] s)"
  shows "prefix ''``'' s"
proof (cases s)
  case Nil
  with assms show ?thesis by simp
next
  case (Cons c cs)
  show ?thesis
  proof (cases "prefix ''```'' (c # cs)")
    case True
    then have "prefix ''``'' (c # cs)" by (auto simp: prefix_def)
    with Cons show ?thesis by auto
  next
    case False
    from assms have "prefix ''``'' (c # remove_fence [] cs)"
      unfolding Cons remove_fence_other [OF False] .
    then have c: "c = CHR 0x60" and "prefix ''`'' (remove_fence [] cs)" by auto
    then have "prefix ''`'' cs" using remove_fence_backtick1 by blast
    with c Cons show ?thesis by auto
  qed
qed

lemma remove_fence_no_fence: "\<not> sublist ''```'' (remove_fence [] s)"
proof (induction s rule: length_induct)
  case (1 s)
  show ?case
  proof (cases s)
    case Nil
    then show ?thesis by simp
  next
    case (Cons c cs)
    show ?thesis
    proof (cases "prefix ''```'' (c # cs)")
      case True
      let ?r = "dropWhile is_space (drop 3 (c # cs))"
      have "length ?r < length s"
        using length_dropWhile_le [of is_space "drop 3 (c # cs)"] Cons by simp
      with 1 have "\<not> sublist ''```'' (remove_fence [] ?r)" by blast
      moreover have "remove_fence [] (c # cs) = remove_fence [] ?r"
        using True by auto
      ultimately show ?thesis using Cons by simp
    next
      case False
      have IH: "\<not> sublist ''```'' (remove_fence [] cs)" using 1 Cons by simp
      have "\<not> prefix ''```'' (c # remove_fence [] cs)"
      proof
        assume "prefix ''```'' (c # remove_fence [] cs)"
        then have c: "c = CHR 0x60" and "prefix ''``'' (remove_fence [] cs)" by auto
        then have "prefix ''``'' cs" using remove_fence_backtick2 by blast
        with c have "prefix ''```'' (c # cs)" by auto
        with False show False by blast
      qed
      with IH have "\<not> sublist ''```'' (c # remove_fence [] cs)"
        by (simp add: sublist_Cons_right)
      then show ?thesis unfolding Cons remove_fence_other [OF False] .
    qed
  qed
qed

lemma spec_extract_json_nested:
  \<open>spec_extract_json ''{"a":[1]}'' = ''{"a":[1]}''
   \<and> spec_extract_json ''{"q":"a[i]","b":2}'' = ''{"q":"a[i]","b":2}''\<close>
  by (simp add: spec_extract_json_def upto_last_def)

text \<open>
  Claim C6: \<^verbatim>\<open>_extract_json\<close> removes the fence delimiters and then returns the first
  top-level \<^verbatim>\<open>[...]\<close> span or, failing that, the first top-level \<^verbatim>\<open>{...}\<close> span, and the trimmed
  text when there is no span. The regular expression does not prefer the square bracket:
  the search takes the leftmost position at which either alternative matches. In the text
  below an object is followed by an array, both top-level: the code returns the object,
  where the claim's rule gives the array.
\<close>

theorem extract_json_object_first:
  \<open>extract_json ''{"a":1} [2]'' = ''{"a":1}'' \<and> spec_extract_json ''{"a":1} [2]'' = ''[2]''\<close>
  by (simp add: extract_json_def spec_extract_json_def upto_last_def)

text \<open>
  Claim C6 as amended, with \<open>t\<close> the text after both substitutions. No three backticks
  in a row are left in \<open>t\<close>. When no opening bracket of \<open>t\<close> starts a span, the trimmed
  \<open>t\<close> is returned. Otherwise the span returned begins at the leftmost opening bracket,
  square or curly, that starts a span, and ends at the last closing bracket of that kind.
\<close>

theorem extract_json_leftmost_span:
  fixes raw_output :: string
  defines "t \<equiv> remove_fence [] (remove_fence ''json'' raw_output)"
  shows "\<not> sublist ''```'' t
    \<and> ((\<forall>pre c rest. t = pre @ c # rest \<longrightarrow> \<not> starts_span c rest)
         \<longrightarrow> extract_json raw_output = py_strip t)
    \<and> (\<forall>pre c body post.
          t = pre @ c # body @ closing c # post
          \<and> c \<in> {CHR ''['', CHR ''{''} \<and> closing c \<notin> set post
          \<and> (\<forall>p1 d p2. pre = p1 @ d # p2 \<longrightarrow> \<not> starts_span d (p2 @ c # body @ closing c # post))
         \<longrightarrow> extract_json raw_output = c # body @ [closing c])"
proof (intro conjI allI impI)
  show "\<not> sublist ''```'' t" unfolding t_def by (rule remove_fence_no_fence)
next
  assume "\<forall>pre c rest. t = pre @ c # rest \<longrightarrow> \<not> starts_span c rest"
  then have "search_span t = None" by (intro search_span_None) blast
  then show "extract_json raw_output = py_strip t"
    by (simp add: extract_json_def t_def)
next
  fix pre c body post
  assume a: "t = pre @ c # body @ closing c # post
          \<and> c \<in> {CHR ''['', CHR ''{''} \<and> closing c \<notin> set post
          \<and> (\<forall>p1 d p2. pre = p1 @ d # p2 \<longrightarrow> \<not> starts_span d (p2 @ c # body @ closing c # post))"
  let ?rest = "body @ closing c # post"
  from a have start: "starts_span c ?rest" by (auto simp: starts_span_def closing_def)
  from a have "search_span (pre @ c # ?rest) = search_span (c # ?rest)"
    by (intro search_span_skip) blast
  also have "\<dots> = Some (c # upto_last (closing c) ?rest)"
    using start by (rule search_span_start)
  also have "upto_last (closing c) ?rest = body @ [closing c]"
    using a by (intro upto_last_append) blast
  finally have "search_span t = Some (c # body @ [closing c])" using a by simp
  then show "extract_json raw_output = c # body @ [closing c]"
    by (simp add: extract_json_def t_def)
qed

theorem extract_json_leftmost_span_witness:
  \<open>extract_json ''Sure:\<newline>```json\<newline>{"a":[1]} ok'' = ''{"a":[1]}''
   \<and> extract_json ''  not json at all  '' = ''not json at all''\<close>
proof
  let ?raw = \<open>''Sure:\<newline>```json\<newline>{"a":[1]} ok''\<close>
  have t: \<open>remove_fence [] (remove_fence ''json'' ?raw)
             = ''Sure:\<newline>'' @ CHR ''{'' # ''"a":[1]'' @ closing CHR ''{'' # '' ok''\<close>
    by (simp add: closing_def is_space_def)
  have pre: \<open>\<not> starts_span d rest\<close> if \<open>''Sure:\<newline>'' = p1 @ d # p2\<close> for p1 d p2 rest
  proof -
    from that have \<open>d \<in> set ''Sure:\<newline>''\<close> by (metis in_set_conv_decomp)
    then show ?thesis by (auto simp: starts_span_def)
  qed
  have \<open>extract_json ?raw = CHR ''{'' # ''"a":[1]'' @ [closing CHR ''{'']\<close>
  proof (rule extract_json_leftmost_span
      [of ?raw, THEN conjunct2, THEN conjunct2, rule_format,
       where pre = \<open>''Sure:\<newline>''\<close> and post = \<open>'' ok''\<close>])
    show \<open>remove_fence [] (remove_fence ''json'' ?raw)
            = ''Sure:\<newline>'' @ CHR ''{'' # ''"a":[1]'' @ closing CHR ''{'' # '' ok''
          \<and> CHR ''{'' \<in> {CHR ''['', CHR ''{''} \<and> closing CHR ''{'' \<notin> set '' ok''
          \<and> (\<forall>p1 d p2. ''Sure:\<newline>'' = p1 @ d # p2 \<longrightarrow>
                \<not> starts_span d (p2 @ CHR ''{'' # ''"a":[1]'' @ closing CHR ''{'' # '' ok''))\<close>
      using t pre by (simp add: closing_def)
  qed
  then show \<open>extract_json ?raw = ''{"a":[1]}''\<close> by (simp add: closing_def)
next
  let ?raw = \<open>''  not json at all  ''\<close>
  have t: \<open>remove_fence [] (remove_fence ''json'' ?raw) = ?raw\<close> by simp
  have none: \<open>\<not> starts_span c rest\<close>
    if \<open>remove_fence [] (remove_fence ''json'' ?raw) = pre @ c # rest\<close> for pre c rest
  proof -
    from that t have \<open>c \<in> set ?raw\<close> by (metis in_set_conv_decomp)
    then show ?thesis by (auto simp: starts_span_def)
  qed
  have \<open>extract_json ?raw = py_strip (remove_fence [] (remove_fence ''json'' ?raw))\<close>
    by (rule extract_json_leftmost_span [of ?raw, THEN conjunct2, THEN conjunct1, rule_format])
       (use none in blast)
  then show \<open>extract_json ?raw = ''not json at all''\<close>
    unfolding t by (simp add: py_strip_def is_space_def)
qed

section \<open>The number of records returned\<close>

lemma generate_fallback_not_Nil:
  assumes "1 \<le> count"
  shows "generate_fallback_mcq topic difficulty count \<noteq> []"
    and "generate_fallback_fillup topic difficulty count \<noteq> []"
    and "generate_fallback_coding topic difficulty count \<noteq> []"
  using assms length_generate_fallback [of topic difficulty count]
  by (auto simp del: length_0_conv simp: length_0_conv [symmetric])

lemma parse_mcq_raises:
  "parse_mcq loads raw_output topic difficulty count = Inl e \<longleftrightarrow>
     loads (extract_json raw_output) = Inl e \<and> e \<noteq> JSONDecodeError"
  by (auto simp: parse_mcq_def Let_def split: sum.splits option.splits json.splits)

lemma parse_fillup_raises:
  "parse_fillup loads raw_output topic difficulty count = Inl e \<longleftrightarrow>
     loads (extract_json raw_output) = Inl e \<and> e \<noteq> JSONDecodeError"
  by (auto simp: parse_fillup_def Let_def split: sum.splits option.splits json.splits)

lemma parse_coding_raises:
  "parse_coding loads raw_output topic difficulty count = Inl e \<longleftrightarrow>
     (loads (extract_json raw_output) = Inl e \<and> e \<noteq> JSONDecodeError \<and> e \<noteq> ValueError)
     \<or> (\<exists>elems. loads (extract_json raw_output) = Inr (JArr elems)
           \<and> coding_loop topic difficulty 1 elems [] = Inl e)
     \<or> (\<exists>q. loads (extract_json raw_output) = Inr (JObj q)
           \<and> coding_validate topic difficulty 1 q = Inl e)"
proof (cases "loads (extract_json raw_output)")
  case (Inl x)
  then show ?thesis by (auto simp: parse_coding_def)
next
  case (Inr v)
  then show ?thesis
    by (cases v) (auto simp: parse_coding_def split: sum.splits option.splits)
qed

lemma parse_mcq_length:
  "1 \<le> count \<Longrightarrow> parse_mcq loads raw_output topic difficulty count = Inr rs \<Longrightarrow>
     1 \<le> length rs"
  by (auto simp: parse_mcq_def Let_def length_generate_fallback generate_fallback_not_Nil
             Suc_le_eq
           split: sum.splits option.splits json.splits if_splits)

lemma parse_fillup_length:
  "1 \<le> count \<Longrightarrow> parse_fillup loads raw_output topic difficulty count = Inr rs \<Longrightarrow>
     1 \<le> length rs"
  by (auto simp: parse_fillup_def Let_def length_generate_fallback generate_fallback_not_Nil
             Suc_le_eq
           split: sum.splits option.splits json.splits if_splits)

lemma parse_coding_length:
  "1 \<le> count \<Longrightarrow> parse_coding loads raw_output topic difficulty count = Inr rs \<Longrightarrow>
     1 \<le> length rs \<and> length rs \<le> nat count"
  by (auto simp: parse_coding_def Let_def length_generate_fallback generate_fallback_not_Nil
             Suc_le_eq slice_to_def
           split: option.splits json.splits sum.splits if_splits)

lemma parse_coding_truncates:
  "1 \<le> count \<Longrightarrow> loads (extract_json raw_output) = Inr (JArr elems) \<Longrightarrow>
   coding_loop topic difficulty 1 elems [] = Inr kept \<Longrightarrow> kept \<noteq> [] \<Longrightarrow>
     parse_coding loads raw_output topic difficulty count = Inr (take (nat count) kept)"
  by (simp add: parse_coding_def slice_to_def)

lemma parse_mcq_returns_all_kept:
  "loads (extract_json raw_output) = Inr (JArr elems) \<Longrightarrow>
   mcq_loop topic difficulty 1 elems [] \<noteq> [] \<Longrightarrow>
     parse_mcq loads raw_output topic difficulty count
       = Inr (mcq_loop topic difficulty 1 elems [])"
  by (simp add: parse_mcq_def)

lemma parse_fillup_returns_all_kept:
  "loads (extract_json raw_output) = Inr (JArr elems) \<Longrightarrow>
   fillup_loop topic difficulty 1 elems [] \<noteq> [] \<Longrightarrow>
     parse_fillup loads raw_output topic difficulty count =
       Inr (fillup_loop topic difficulty 1 elems [])"
  by (simp add: parse_fillup_def)

text \<open>
  Claim C5: for \<open>count \<ge> 1\<close> and any raw text the parse result is a list of at least one
  record, of exactly \<open>count\<close> records on the fallback path, of at most \<open>count\<close> for coding,
  and of all kept elements for the other two kinds. The lemmas above give this for each
  parser whenever it returns, and say when it does not. \<^verbatim>\<open>_parse_coding\<close> does not return
  on the text below, which is JSON: the first element is valid and one record is asked for,
  yet the \<^verbatim>\<open>null\<close> in the second element makes \<^verbatim>\<open>.strip()\<close> raise \<^verbatim>\<open>AttributeError\<close>, which
  the \<^verbatim>\<open>except\<close> clause does not catch, so the caller gets no list.
\<close>

theorem parse_coding_null_input_no_list:
  \<open>parse_coding
     (loads_of [(''[{"question": "q", "input": "i", "output": "o"}, {"question": "r", "input": null, "output": "p"}]'',
               JArr [JObj [(''question'', JStr ''q''), (''input'', JStr ''i''),
                           (''output'', JStr ''o'')],
                     JObj [(''question'', JStr ''r''), (''input'', JNull),
                           (''output'', JStr ''p'')]])])
     ''[{"question": "q", "input": "i", "output": "o"}, {"question": "r", "input": null, "output": "p"}]''
     ''Python'' ''easy'' 1
   = Inl AttributeError\<close>
  by (simp add: eval_defs)

section \<open>The elements that Stage C keeps\<close>

text \<open>
  Claim C7: from a decoded array Stage C keeps exactly the elements whose mandatory fields
  are non-empty, drops the others silently, keeps the order, and numbers a kept element
  without \<^verbatim>\<open>id\<close> by its position. For the loops of \<^verbatim>\<open>_parse_mcq\<close> and \<^verbatim>\<open>_parse_fillup\<close> this is
  what \<open>mcq_loop_enumerate\<close> and \<open>fillup_loop_enumerate\<close> say. The loop of \<^verbatim>\<open>_parse_coding\<close>
  does not keep the element below, whose \<^verbatim>\<open>question\<close>, \<^verbatim>\<open>input\<close> and \<^verbatim>\<open>output\<close> are non-empty:
  \<^verbatim>\<open>.strip()\<close> on its numeric \<^verbatim>\<open>constraints\<close> raises \<^verbatim>\<open>AttributeError\<close> before the check is
  reached.
\<close>

theorem parse_coding_element_not_kept:
  \<open>parse_coding
     (loads_of [(''[{"question": "q", "input": "i", "output": "o", "constraints": 5}]'',
               JArr [JObj [(''question'', JStr ''q''), (''input'', JStr ''i''),
                           (''output'', JStr ''o''), (''constraints'', JInt 5)]])])
     ''[{"question": "q", "input": "i", "output": "o", "constraints": 5}]''
     ''Python'' ''easy'' 1
   = Inl AttributeError\<close>
  by (simp add: eval_defs)

end
